theory Spec2Isabelle
  imports Main "HOL-Library.Word"
begin

unbundle bit_operations_syntax

section \<open>The dex cache of the ART runtime: data model\<close>

text \<open>
  The development follows \<^verbatim>\<open>runtime/mirror/dex_cache.h\<close> (the slot pair, the capacities
  and the declarations of the cache operations) and
  \<^verbatim>\<open>runtime/native/java_lang_DexCache.cc\<close> (the native bindings).

  A managed object reference is a heap address; the null reference is \<open>None\<close> of
  \<open>objref option\<close>. Indices are \<^verbatim>\<open>uint32_t\<close>, hence \<open>32 word\<close>.
\<close>

type_synonym objref = nat
type_synonym u32 = "32 word"

text \<open>
  \<^verbatim>\<open>template <typename T> struct DexCachePair { GcRoot<T> object; uint32_t index; }\<close>
\<close>

record 'a DexCachePair =
  object :: "'a option"
  index :: u32

text \<open>
  The ways a call can abort. \<open>CheckFailed\<close> is a failed \<^verbatim>\<open>CHECK_LT\<close> of a native
  binding (fatal in every build); \<open>DCheckFailed\<close> is a failed \<^verbatim>\<open>DCHECK\<close>, which only
  exists in a build with debug checks.
\<close>

datatype abort = CheckFailed | DCheckFailed

subsection \<open>The slot pair\<close>

text \<open>
  \<^verbatim>\<open>static uint32_t InvalidIndexForSlot(uint32_t slot) { return (slot == 0) ? 1u : 0u; }\<close>
\<close>

definition InvalidIndexForSlot :: "u32 \<Rightarrow> u32" where
  "InvalidIndexForSlot slot = (if slot = 0 then 1 else 0)"

text \<open>
  \<^verbatim>\<open>T* GetObjectForIndex(uint32_t idx)\<close>: a mismatch of the index returns \<^verbatim>\<open>nullptr\<close>;
  on a match the \<^verbatim>\<open>DCHECK(!object.IsNull())\<close> runs (only when debug checks are compiled
  in, the flag \<open>dchecks\<close>, whose defining macro is outside the sources at hand) and then
  the object is read. The function has no state to return: it only reads the two fields.
\<close>

definition GetObjectForIndex :: "bool \<Rightarrow> 'a DexCachePair \<Rightarrow> u32 \<Rightarrow> abort + 'a option" where
  "GetObjectForIndex dchecks p idx =
     (if idx \<noteq> index p then Inr None
      else if dchecks \<and> object p = None then Inl DCheckFailed
      else Inr (object p))"

text \<open>
  \<^verbatim>\<open>static void Initialize(std::atomic<DexCachePair<T>>* dex_cache)\<close> stores the pair
  \<^verbatim>\<open>{nullptr, InvalidIndexForSlot(0)}\<close> into element 0 of the array.
\<close>

definition Initialize :: "'a DexCachePair list \<Rightarrow> 'a DexCachePair list" where
  "Initialize dex_cache = dex_cache[0 := \<lparr>object = None, index = InvalidIndexForSlot 0\<rparr>]"

text \<open>
  Modelled from the spec: \<open>Install\<close> of a slot pair (section 4.1; the stores are in
  \<^verbatim>\<open>dex_cache-inl.h\<close>, which is not among the sources). It overwrites the pair with
  \<^verbatim>\<open>{value, logical_index}\<close>, whatever the pair held; the value is a nullable
  \<^verbatim>\<open>ObjPtr<T>\<close>.
\<close>

definition Install :: "'a DexCachePair \<Rightarrow> u32 \<Rightarrow> 'a option \<Rightarrow> 'a DexCachePair" where
  "Install p logical_index v = \<lparr>object = v, index = logical_index\<rparr>"

text \<open>
  Modelled from the spec: \<open>Clear\<close> of the pair held in physical slot \<open>slot\<close> (sections 4.1
  and 4.4; the code of \<^verbatim>\<open>ClearString\<close> and \<^verbatim>\<open>ClearResolvedType\<close> is not among the sources,
  only their declarations). It is a compare-then-clear: the pair is overwritten "only if the
  currently stored index equals \<^verbatim>\<open>logical_index\<close>". By the state machine of section 4.4
  (\<^verbatim>\<open>POPULATED(idx=k) -> EMPTY\<close> via \<^verbatim>\<open>ClearIfMatching(k)\<close>) the pair it leaves is the empty
  pair of the slot, the null object with the sentinel \<open>InvalidIndexForSlot slot\<close>, as
  invariant INV1 of the spec and the invariant comment and \<^verbatim>\<open>DCHECK\<close> of \<^verbatim>\<open>DexCachePair\<close>
  require of every pair with a null object.
\<close>

definition Clear :: "u32 \<Rightarrow> 'a DexCachePair \<Rightarrow> u32 \<Rightarrow> 'a DexCachePair" where
  "Clear slot p logical_index =
     (if index p = logical_index
      then \<lparr>object = None, index = InvalidIndexForSlot slot\<rparr>
      else p)"

subsection \<open>The fixed-capacity, direct-mapped cache\<close>

text \<open>
  \<^verbatim>\<open>static constexpr size_t kDexCacheTypeCacheSize = 1024;\<close> and its two siblings, each with
  a \<^verbatim>\<open>static_assert\<close> that it is a power of two.
\<close>

definition kDexCacheTypeCacheSize :: nat where
  "kDexCacheTypeCacheSize = 1024"

definition kDexCacheStringCacheSize :: nat where
  "kDexCacheStringCacheSize = 1024"

definition kDexCacheMethodTypeCacheSize :: nat where
  "kDexCacheMethodTypeCacheSize = 1024"

text \<open>
  Modelled from the spec: the slot mapping of a cache of capacity \<open>C\<close> (section 4.2:
  "physical slot = \<^verbatim>\<open>logical_index & (C-1)\<close>"); \<^verbatim>\<open>StringSlotIndex\<close>, \<^verbatim>\<open>TypeSlotIndex\<close> and
  \<^verbatim>\<open>MethodTypeSlotIndex\<close> are declared in the header and defined in \<^verbatim>\<open>dex_cache-inl.h\<close>,
  which is not among the sources.
\<close>

definition SlotIndex :: "nat \<Rightarrow> u32 \<Rightarrow> u32" where
  "SlotIndex C logical_index = logical_index AND (word_of_nat C - 1)"

text \<open>
  Modelled from the spec: \<^verbatim>\<open>StringSlotIndex\<close> (declared in the header, body not among the
  sources), the slot mapping at the capacity of the string cache.
\<close>

definition StringSlotIndex :: "u32 \<Rightarrow> u32" where
  "StringSlotIndex string_idx = SlotIndex kDexCacheStringCacheSize string_idx"

text \<open>
  Modelled from the spec: \<^verbatim>\<open>TypeSlotIndex\<close> (declared in the header, body not among the
  sources), the slot mapping at the capacity of the type cache.
\<close>

definition TypeSlotIndex :: "u32 \<Rightarrow> u32" where
  "TypeSlotIndex type_idx = SlotIndex kDexCacheTypeCacheSize type_idx"

text \<open>
  Modelled from the spec: \<^verbatim>\<open>MethodTypeSlotIndex\<close> (declared in the header, body not among
  the sources), the slot mapping at the capacity of the method-type cache.
\<close>

definition MethodTypeSlotIndex :: "u32 \<Rightarrow> u32" where
  "MethodTypeSlotIndex proto_idx = SlotIndex kDexCacheMethodTypeCacheSize proto_idx"

text \<open>
  Modelled from the spec: the zero-filled allocation of a cache array (sections 4.1 and 6;
  \<^verbatim>\<open>InitializeDexCache\<close> is defined in \<^verbatim>\<open>dex_cache.cc\<close>, which is not among the sources).
  The array of \<open>C\<close> pairs is zero-filled, which is the state \<^verbatim>\<open>[ {0,0}, {0,0}, ... ]\<close> of the
  comment in \<^verbatim>\<open>DexCachePair\<close>.
\<close>

definition ZeroFill :: "nat \<Rightarrow> 'a DexCachePair list" where
  "ZeroFill C = replicate C \<lparr>object = None, index = 0\<rparr>"

text \<open>
  Modelled from the spec: the initialisation of a cache array (section 4.1,
  \<^verbatim>\<open>InitializeSlotZero\<close>, and section 6; the caller \<^verbatim>\<open>InitializeDexCache\<close> is not among the
  sources): the zero-fill, then the set-up of slot 0 by \<open>Initialize\<close>.
\<close>

definition InitializeCache :: "nat \<Rightarrow> 'a DexCachePair list" where
  "InitializeCache C = Initialize (ZeroFill C)"

text \<open>
  Modelled from the spec: \<open>Lookup\<close> of a fixed cache (section 4.2: "physical slot =
  \<^verbatim>\<open>logical_index & (C-1)\<close>; delegate to that slot's \<^verbatim>\<open>TryGetForIndex\<close>", which is
  \<open>GetObjectForIndex\<close> of the source); the bodies of \<^verbatim>\<open>GetResolvedString\<close> and its siblings
  are not among the sources. The array has \<open>C\<close> elements and the slot is masked, so the
  access is in range (\<open>SlotIndex_bound\<close> below).
\<close>

definition Lookup :: "bool \<Rightarrow> nat \<Rightarrow> 'a DexCachePair list \<Rightarrow> u32 \<Rightarrow> abort + 'a option" where
  "Lookup dchecks C slots logical_index =
     GetObjectForIndex dchecks (slots ! unat (SlotIndex C logical_index)) logical_index"

text \<open>
  Modelled from the spec: \<open>Insert\<close> of a fixed cache (section 4.2: the same physical slot,
  "delegate to \<^verbatim>\<open>Install\<close>"); the bodies of \<^verbatim>\<open>SetResolvedString\<close> and its siblings are not
  among the sources.
\<close>

definition Insert :: "nat \<Rightarrow> 'a DexCachePair list \<Rightarrow> u32 \<Rightarrow> 'a option \<Rightarrow> 'a DexCachePair list" where
  "Insert C slots logical_index v =
     (let slot = unat (SlotIndex C logical_index)
      in slots[slot := Install (slots ! slot) logical_index v])"

text \<open>
  Modelled from the spec: \<open>ClearIfMatching\<close> of a fixed cache (section 4.2: "delegates to
  \<^verbatim>\<open>Clear\<close>", on the physical slot of the index); the bodies of \<^verbatim>\<open>ClearString\<close> and
  \<^verbatim>\<open>ClearResolvedType\<close> are not among the sources.
\<close>

definition ClearIfMatching :: "nat \<Rightarrow> 'a DexCachePair list \<Rightarrow> u32 \<Rightarrow> 'a DexCachePair list" where
  "ClearIfMatching C slots logical_index =
     (let slot = SlotIndex C logical_index
      in slots[unat slot := Clear slot (slots ! unat slot) logical_index])"

subsection \<open>The states of a slot\<close>

text \<open>
  The two states of invariant INV1 for the pair held in physical slot \<open>slot\<close> of a cache of
  capacity \<open>C\<close>: empty (null object, the slot's empty index) and populated (non-null object,
  an index that the slot mapping sends to this slot).
\<close>

definition slot_empty :: "u32 \<Rightarrow> 'a DexCachePair \<Rightarrow> bool" where
  "slot_empty slot p = (object p = None \<and> index p = InvalidIndexForSlot slot)"

definition slot_populated :: "nat \<Rightarrow> u32 \<Rightarrow> 'a DexCachePair \<Rightarrow> bool" where
  "slot_populated C slot p = (object p \<noteq> None \<and> SlotIndex C (index p) = slot)"

definition INV1 :: "nat \<Rightarrow> u32 \<Rightarrow> 'a DexCachePair \<Rightarrow> bool" where
  "INV1 C slot p = (slot_empty slot p \<or> slot_populated C slot p)"

text \<open>
  The invariant for a whole cache array of capacity \<open>C\<close>: it has \<open>C\<close> slots and each one is
  empty or populated.
\<close>

definition cache_INV1 :: "nat \<Rightarrow> 'a DexCachePair list \<Rightarrow> bool" where
  "cache_INV1 C slots =
     (length slots = C \<and> (\<forall>s\<in>{..<C}. INV1 C (word_of_nat s) (slots ! s)))"

subsection \<open>The dex cache object\<close>

text \<open>
  Modelled from the spec: the defining dex file (section 6, "the defining binary's own
  declared counts"; the class \<^verbatim>\<open>DexFile\<close> is only forward-declared in the sources at hand).
  It holds what the bindings read of it: the declared counts (unsigned 32-bit counts, as are
  the \<^verbatim>\<open>num_*\<close> fields of \<^verbatim>\<open>DexCache\<close>) and the descriptor that the file declares for a
  type index.
\<close>

record DexFile =
  NumStringIds :: u32
  NumTypeIds :: u32
  StringByTypeIdx :: "u32 \<Rightarrow> string"

text \<open>
  A \<^verbatim>\<open>mirror::Class\<close> object: its address and its descriptor. Two references are the same
  pointer exactly when the records are equal.
\<close>

record mirror_Class =
  class_ref :: objref
  descriptor :: string

text \<open>
  Modelled from the spec: \<^verbatim>\<open>Class::DescriptorEquals\<close> (section 4.4, "\<^verbatim>\<open>value\<close>'s textual
  descriptor matches the index's expected descriptor"; the class is only forward-declared in
  the sources at hand).
\<close>

definition DescriptorEquals :: "mirror_Class \<Rightarrow> string \<Rightarrow> bool" where
  "DescriptorEquals t s = (descriptor t = s)"

text \<open>
  The fields of \<^verbatim>\<open>class DexCache\<close> that the operations below touch: the dex file, the
  three arrays of slot pairs and the array of call sites (\<^verbatim>\<open>GcRoot<CallSite>*\<close>, one
  nullable root for each call-site index).
\<close>

record DexCache =
  dex_file :: DexFile
  strings :: "objref DexCachePair list"
  resolved_types :: "mirror_Class DexCachePair list"
  resolved_method_types :: "objref DexCachePair list"
  resolved_call_sites :: "objref option list"

text \<open>
  The string and type operations of the cache are declared in the header and defined in
  \<^verbatim>\<open>dex_cache-inl.h\<close>, which is not among the sources; by section 4.4 of the spec each
  "delegates to the matching sub-cache".

  Modelled from the spec: \<^verbatim>\<open>GetResolvedString\<close>, the lookup in the string cache.
\<close>

definition GetResolvedString :: "bool \<Rightarrow> DexCache \<Rightarrow> u32 \<Rightarrow> abort + objref option" where
  "GetResolvedString dchecks dc string_idx =
     Lookup dchecks kDexCacheStringCacheSize (strings dc) string_idx"

text \<open>
  Modelled from the spec: \<^verbatim>\<open>SetResolvedString\<close>, the insert into the string cache.
\<close>

definition SetResolvedString :: "DexCache \<Rightarrow> u32 \<Rightarrow> objref option \<Rightarrow> DexCache" where
  "SetResolvedString dc string_idx resolved =
     dc\<lparr>strings := Insert kDexCacheStringCacheSize (strings dc) string_idx resolved\<rparr>"

text \<open>
  Modelled from the spec: \<^verbatim>\<open>ClearString\<close>, the clear in the string cache.
\<close>

definition ClearString :: "DexCache \<Rightarrow> u32 \<Rightarrow> DexCache" where
  "ClearString dc string_idx =
     dc\<lparr>strings := ClearIfMatching kDexCacheStringCacheSize (strings dc) string_idx\<rparr>"

text \<open>
  Modelled from the spec: \<^verbatim>\<open>GetResolvedType\<close>, the lookup in the type cache.
\<close>

definition GetResolvedType :: "bool \<Rightarrow> DexCache \<Rightarrow> u32 \<Rightarrow> abort + mirror_Class option" where
  "GetResolvedType dchecks dc type_idx =
     Lookup dchecks kDexCacheTypeCacheSize (resolved_types dc) type_idx"

text \<open>
  Modelled from the spec: \<^verbatim>\<open>SetResolvedType\<close>, the insert into the type cache.
\<close>

definition SetResolvedType :: "DexCache \<Rightarrow> u32 \<Rightarrow> mirror_Class option \<Rightarrow> DexCache" where
  "SetResolvedType dc type_idx resolved =
     dc\<lparr>resolved_types := Insert kDexCacheTypeCacheSize (resolved_types dc) type_idx resolved\<rparr>"

text \<open>
  Modelled from the spec: \<^verbatim>\<open>ClearResolvedType\<close>, the clear in the type cache.
\<close>

definition ClearResolvedType :: "DexCache \<Rightarrow> u32 \<Rightarrow> DexCache" where
  "ClearResolvedType dc type_idx =
     dc\<lparr>resolved_types :=
          ClearIfMatching kDexCacheTypeCacheSize (resolved_types dc) type_idx\<rparr>"

text \<open>
  Modelled from the spec: \<^verbatim>\<open>SetResolvedCallSite\<close> (section 4.4; declared in the header,
  defined in \<^verbatim>\<open>dex_cache-inl.h\<close>, which is not among the sources). One atomic step "compares
  the slot's current value against null and either installs \<^verbatim>\<open>candidate\<close> and returns it,
  or discards \<^verbatim>\<open>candidate\<close> and returns the value some other thread already installed".
  The result is the returned call site and the cache after the step.
\<close>

definition SetResolvedCallSite ::
  "DexCache \<Rightarrow> u32 \<Rightarrow> objref option \<Rightarrow> objref option \<times> DexCache" where
  "SetResolvedCallSite dc call_site_idx resolved =
     (let sites = resolved_call_sites dc; i = unat call_site_idx
      in if sites ! i = None
         then (resolved, dc\<lparr>resolved_call_sites := sites[i := resolved]\<rparr>)
         else (sites ! i, dc))"

text \<open>
  Modelled from the spec: \<^verbatim>\<open>GetResolvedCallSite\<close> (section 4.3, "direct indexed read"; only
  declared in the header).
\<close>

definition GetResolvedCallSite :: "DexCache \<Rightarrow> u32 \<Rightarrow> objref option" where
  "GetResolvedCallSite dc call_site_idx = resolved_call_sites dc ! unat call_site_idx"

text \<open>
  Competing calls of \<open>SetResolvedCallSite\<close> on one index. Each call is one atomic step, so
  the calls of any number of threads take effect one after the other in some order; the
  list of candidates is that order. The result is the list of returned values, in the same
  order, and the final cache.
\<close>

fun SetResolvedCallSite_calls ::
  "DexCache \<Rightarrow> u32 \<Rightarrow> objref option list \<Rightarrow> objref option list \<times> DexCache" where
  "SetResolvedCallSite_calls dc call_site_idx [] = ([], dc)"
| "SetResolvedCallSite_calls dc call_site_idx (c # cs) =
     (let (r, dc') = SetResolvedCallSite dc call_site_idx c;
          (rs, dc'') = SetResolvedCallSite_calls dc' call_site_idx cs
      in (r # rs, dc''))"

subsection \<open>The class table\<close>

text \<open>
  Modelled from the spec: the class table's insert-or-get-existing (section 4.4;
  \<^verbatim>\<open>ClassTable::TryInsert\<close> is not among the sources). A class with the descriptor of \<open>t\<close>
  that is already in the table is returned and the table is unchanged; otherwise \<open>t\<close> is
  added and returned.
\<close>

type_synonym ClassTable = "mirror_Class list"

definition TryInsert :: "ClassTable \<Rightarrow> mirror_Class \<Rightarrow> mirror_Class \<times> ClassTable" where
  "TryInsert table t =
     (case find (\<lambda>c. descriptor c = descriptor t) table of
        Some existing \<Rightarrow> (existing, table)
      | None \<Rightarrow> (t, t # table))"

subsection \<open>The native bindings of java.lang.DexCache\<close>

text \<open>
  A \<^verbatim>\<open>jint\<close> is a signed 32-bit value. \<^verbatim>\<open>static_cast<size_t>(type_index)\<close> converts it to
  \<^verbatim>\<open>size_t\<close>, unsigned and 64 bits wide on a 64-bit target (sign extension, so a negative
  index becomes a value of at least \<open>2 ^ 63\<close>); the count is an unsigned 32-bit value
  widened to \<^verbatim>\<open>size_t\<close>.
\<close>

type_synonym jint = "32 word"
type_synonym size_t = "64 word"

definition static_cast_size_t :: "jint \<Rightarrow> size_t" where
  "static_cast_size_t i = scast i"

text \<open>
  Modelled from the spec: the macro \<^verbatim>\<open>CHECK_LT\<close> (sections 6 and 7, a "fatal assertion"
  that aborts; the logging header that defines it is not among the sources). The call
  \<^verbatim>\<open>CHECK_LT(a, b)\<close> passes when \<open>a < b\<close> and aborts the runtime otherwise.
\<close>

definition CHECK_LT :: "size_t \<Rightarrow> size_t \<Rightarrow> bool" where
  "CHECK_LT a b = (a < b)"

text \<open>
  Modelled from the spec: \<^verbatim>\<open>dex::TypeIndex(type_index)\<close> (section 3, the index is an
  "unsigned key"; the header of the index types is not among the sources): the index as the
  unsigned key of the cache, the same 32 bits.
\<close>

definition TypeIndex :: "jint \<Rightarrow> u32" where
  "TypeIndex i = i"

text \<open>
  Modelled from the spec: \<^verbatim>\<open>dex::StringIndex(string_index)\<close>, as \<open>TypeIndex\<close>.
\<close>

definition StringIndex :: "jint \<Rightarrow> u32" where
  "StringIndex i = i"

text \<open>
  \<^verbatim>\<open>DexCache_getResolvedType\<close> and \<^verbatim>\<open>DexCache_getResolvedString\<close>: the bounds check, then
  the lookup; \<^verbatim>\<open>AddLocalReference\<close> hands the object (or null) back to the caller.
\<close>

definition DexCache_getResolvedType ::
  "bool \<Rightarrow> DexCache \<Rightarrow> jint \<Rightarrow> abort + mirror_Class option" where
  "DexCache_getResolvedType dchecks dex_cache type_index =
     (if \<not> CHECK_LT (static_cast_size_t type_index) (ucast (NumTypeIds (dex_file dex_cache)))
      then Inl CheckFailed
      else GetResolvedType dchecks dex_cache (TypeIndex type_index))"

definition DexCache_getResolvedString ::
  "bool \<Rightarrow> DexCache \<Rightarrow> jint \<Rightarrow> abort + objref option" where
  "DexCache_getResolvedString dchecks dex_cache string_index =
     (if \<not> CHECK_LT (static_cast_size_t string_index) (ucast (NumStringIds (dex_file dex_cache)))
      then Inl CheckFailed
      else GetResolvedString dchecks dex_cache (StringIndex string_index))"

text \<open>
  \<^verbatim>\<open>DexCache_setResolvedType\<close>. After the bounds check: if the type is not null and its
  descriptor equals \<^verbatim>\<open>dex_file.StringByTypeIdx(type_index)\<close>, the class table of the dex
  cache is looked up (\<^verbatim>\<open>FindClassTable\<close>, whose result, null or a table, is the argument
  \<open>class_table\<close>); if there is a table and \<^verbatim>\<open>table->TryInsert(t) == t\<close>, the type is stored
  in the cache. The result is the cache and the class table after the call.
\<close>

definition DexCache_setResolvedType ::
  "DexCache \<Rightarrow> ClassTable option \<Rightarrow> jint \<Rightarrow> mirror_Class option
     \<Rightarrow> abort + (DexCache \<times> ClassTable option)" where
  "DexCache_setResolvedType dex_cache class_table type_index type =
     (if \<not> CHECK_LT (static_cast_size_t type_index) (ucast (NumTypeIds (dex_file dex_cache)))
      then Inl CheckFailed
      else case type of
        None \<Rightarrow> Inr (dex_cache, class_table)
      | Some t \<Rightarrow>
          if DescriptorEquals t (StringByTypeIdx (dex_file dex_cache) (TypeIndex type_index))
          then (case class_table of
                  None \<Rightarrow> Inr (dex_cache, class_table)
                | Some table \<Rightarrow>
                    (let (r, table') = TryInsert table t
                     in if r = t
                        then Inr (SetResolvedType dex_cache (TypeIndex type_index) (Some t),
                                  Some table')
                        else Inr (dex_cache, Some table')))
          else Inr (dex_cache, class_table))"

text \<open>
  \<^verbatim>\<open>DexCache_setResolvedString\<close>: the bounds check, then the string is stored unless it is
  null.
\<close>

definition DexCache_setResolvedString ::
  "DexCache \<Rightarrow> jint \<Rightarrow> objref option \<Rightarrow> abort + DexCache" where
  "DexCache_setResolvedString dex_cache string_index string =
     (if \<not> CHECK_LT (static_cast_size_t string_index) (ucast (NumStringIds (dex_file dex_cache)))
      then Inl CheckFailed
      else case string of
        None \<Rightarrow> Inr dex_cache
      | Some s \<Rightarrow> Inr (SetResolvedString dex_cache (StringIndex string_index) (Some s)))"

text \<open>
  An index is within the bounds of a declared count when it is not negative and below the
  count.
\<close>

definition index_in_bounds :: "jint \<Rightarrow> u32 \<Rightarrow> bool" where
  "index_in_bounds i n = (0 \<le> sint i \<and> sint i < uint n)"

subsection \<open>A concrete cache\<close>

text \<open>
  The cache of a small dex file right after its initialisation: ten type ids, two thousand
  string ids, two call sites, every slot empty. Type index 3 is declared as \<open>LFoo;\<close>.
\<close>

definition small_dex_file :: DexFile where
  "small_dex_file =
     \<lparr>NumStringIds = 2000, NumTypeIds = 10,
      StringByTypeIdx = (\<lambda>i. if i = 3 then ''LFoo;'' else ''LBar;'')\<rparr>"

definition fresh_dex_cache :: DexCache where
  "fresh_dex_cache =
     \<lparr>dex_file = small_dex_file,
      strings = InitializeCache kDexCacheStringCacheSize,
      resolved_types = InitializeCache kDexCacheTypeCacheSize,
      resolved_method_types = InitializeCache kDexCacheMethodTypeCacheSize,
      resolved_call_sites = [None, None]\<rparr>"

definition class_Foo :: mirror_Class where
  "class_Foo = \<lparr>class_ref = 4096, descriptor = ''LFoo;''\<rparr>"

definition class_Foo_duplicate :: mirror_Class where
  "class_Foo_duplicate = \<lparr>class_ref = 8192, descriptor = ''LFoo;''\<rparr>"

section \<open>Facts about the slot mapping\<close>

lemma SlotIndex_take_bit: "SlotIndex (2 ^ n) idx = take_bit n idx"
  by (simp add: SlotIndex_def take_bit_eq_mask mask_eq_exp_minus_1)

lemma SlotIndex_bound: "unat (SlotIndex (2 ^ n) idx) < 2 ^ n"
  unfolding SlotIndex_take_bit by (simp add: unsigned_take_bit_eq)

lemma take_bit_add_capacity: "n < 32 \<Longrightarrow> take_bit n (k + 2 ^ n :: u32) = take_bit n k"
  by transfer (simp add: take_bit_eq_mod mod_simps min_def)

lemma take_bit_mult_capacity: "n < 32 \<Longrightarrow> take_bit n (m * 2 ^ n :: u32) = 0"
  by transfer (simp add: take_bit_eq_mod mod_simps min_def)

lemma SlotIndex_alias:
  "n < 32 \<Longrightarrow> SlotIndex (2 ^ n) (k + word_of_nat (2 ^ n)) = SlotIndex (2 ^ n) k"
  by (simp add: SlotIndex_take_bit take_bit_add_capacity)

lemma SlotIndex_multiple:
  "n < 32 \<Longrightarrow> SlotIndex (2 ^ n) (m * word_of_nat (2 ^ n)) = 0"
  by (simp add: SlotIndex_take_bit take_bit_mult_capacity)

lemma SlotIndex_zero: "SlotIndex C 0 = 0"
  by (simp add: SlotIndex_def)

lemma SlotIndex_one: "0 < n \<Longrightarrow> SlotIndex (2 ^ n) 1 = 1"
  unfolding SlotIndex_take_bit by simp

lemma index_never_sentinel:
  "0 < n \<Longrightarrow> idx \<noteq> InvalidIndexForSlot (SlotIndex (2 ^ n) idx)"
  using SlotIndex_one [of n] SlotIndex_zero [of "2 ^ n"]
  by (auto simp: InvalidIndexForSlot_def)

lemma capacity_shift_neq: "n < 32 \<Longrightarrow> k + word_of_nat (2 ^ n) \<noteq> (k :: u32)"
  by simp

lemma capacities_pow2:
  "kDexCacheTypeCacheSize = 2 ^ 10" "kDexCacheStringCacheSize = 2 ^ 10"
  "kDexCacheMethodTypeCacheSize = 2 ^ 10"
  by (simp_all add: kDexCacheTypeCacheSize_def kDexCacheStringCacheSize_def
      kDexCacheMethodTypeCacheSize_def)

lemma SlotIndex_mod: "unat (SlotIndex (2 ^ n) idx) = unat idx mod 2 ^ n"
proof -
  have "unat (take_bit n idx) = take_bit n (unat idx)"
    by (simp add: unsigned_take_bit_eq)
  also have "\<dots> = unat idx mod 2 ^ n"
    by (rule take_bit_eq_mod)
  finally show ?thesis
    by (simp only: SlotIndex_take_bit)
qed

section \<open>Facts about the cache operations\<close>

lemma length_Insert [simp]: "length (Insert C slots k v) = length slots"
  by (simp add: Insert_def Let_def)

lemma length_ClearIfMatching [simp]: "length (ClearIfMatching C slots k) = length slots"
  by (simp add: ClearIfMatching_def Let_def)

lemma length_InitializeCache [simp]: "length (InitializeCache C :: 'a DexCachePair list) = C"
  by (simp add: InitializeCache_def Initialize_def ZeroFill_def)

lemma Insert_slot:
  "length slots = 2 ^ n \<Longrightarrow>
   Insert (2 ^ n) slots k v ! unat (SlotIndex (2 ^ n) k) = \<lparr>object = v, index = k\<rparr>"
  by (simp add: Insert_def Let_def Install_def SlotIndex_bound)

lemma Insert_other:
  "s \<noteq> unat (SlotIndex C k) \<Longrightarrow> Insert C slots k v ! s = slots ! s"
  by (simp add: Insert_def Let_def)

lemma ClearIfMatching_slot:
  "length slots = 2 ^ n \<Longrightarrow>
   ClearIfMatching (2 ^ n) slots k ! unat (SlotIndex (2 ^ n) k)
     = Clear (SlotIndex (2 ^ n) k) (slots ! unat (SlotIndex (2 ^ n) k)) k"
  by (simp add: ClearIfMatching_def Let_def SlotIndex_bound)

lemma InitializeCache_slot0:
  "0 < C \<Longrightarrow> InitializeCache C ! 0 = \<lparr>object = None, index = 1\<rparr>"
  by (simp add: InitializeCache_def Initialize_def ZeroFill_def InvalidIndexForSlot_def)

lemma InitializeCache_other:
  "0 < s \<Longrightarrow> s < C \<Longrightarrow> InitializeCache C ! s = \<lparr>object = None, index = 0\<rparr>"
  by (simp add: InitializeCache_def Initialize_def ZeroFill_def)

lemma InitializeCache_slot:
  assumes "unat slot < C"
  shows "InitializeCache C ! unat slot = \<lparr>object = None, index = InvalidIndexForSlot slot\<rparr>"
proof (cases "slot = 0")
  case True
  with assms show ?thesis
    by (simp add: InitializeCache_slot0 InvalidIndexForSlot_def)
next
  case False
  then have "0 < unat slot" by (simp add: unat_gt_0)
  with assms False show ?thesis
    by (simp add: InitializeCache_other InvalidIndexForSlot_def)
qed

lemma Lookup_fresh:
  assumes "0 < n"
  shows "Lookup d (2 ^ n) (InitializeCache (2 ^ n)) idx = Inr None"
  using index_never_sentinel [OF assms, of idx]
  by (simp add: Lookup_def InitializeCache_slot SlotIndex_bound GetObjectForIndex_def)

lemma Lookup_Insert_same:
  "length slots = 2 ^ n \<Longrightarrow> Lookup d (2 ^ n) (Insert (2 ^ n) slots k (Some v)) k = Inr (Some v)"
  by (simp add: Lookup_def Insert_slot GetObjectForIndex_def)

lemma GetObjectForIndex_null_match:
  "GetObjectForIndex dchecks \<lparr>object = None, index = idx\<rparr> idx
     = (if dchecks then Inl DCheckFailed else Inr None)"
  by (simp add: GetObjectForIndex_def)

lemma Lookup_not_CheckFailed: "Lookup d C slots idx \<noteq> Inl CheckFailed"
  by (simp add: Lookup_def GetObjectForIndex_def)

lemma ClearIfMatching_other:
  "s \<noteq> unat (SlotIndex C k) \<Longrightarrow> ClearIfMatching C slots k ! s = slots ! s"
  by (simp add: ClearIfMatching_def Let_def)

lemma ClearIfMatching_mismatch:
  "index (slots ! unat (SlotIndex C k)) \<noteq> k \<Longrightarrow> ClearIfMatching C slots k = slots"
  by (simp add: ClearIfMatching_def Let_def Clear_def)

lemma ClearIfMatching_match:
  assumes "length slots = 2 ^ n" and "index (slots ! unat (SlotIndex (2 ^ n) k)) = k"
  shows "ClearIfMatching (2 ^ n) slots k ! unat (SlotIndex (2 ^ n) k)
         = \<lparr>object = None, index = InvalidIndexForSlot (SlotIndex (2 ^ n) k)\<rparr>"
  using assms by (simp add: ClearIfMatching_slot Clear_def)

lemma Lookup_after_Clear:
  assumes "0 < n" and "length slots = 2 ^ n"
    and "index (slots ! unat (SlotIndex (2 ^ n) k)) = k"
  shows "Lookup d (2 ^ n) (ClearIfMatching (2 ^ n) slots k) k = Inr None"
  using index_never_sentinel [OF assms(1), of k]
  by (simp add: Lookup_def ClearIfMatching_match [OF assms(2) assms(3)] GetObjectForIndex_def)

section \<open>Facts about the slot invariant\<close>

lemma unat_slot_number:
  assumes "n < 32" and "s < 2 ^ n"
  shows "unat (word_of_nat s :: u32) = s"
proof -
  have "(2::nat) ^ n < 2 ^ 32" using assms(1) by (intro power_strict_increasing) simp_all
  with assms(2) have "s < 2 ^ 32" by simp
  then show ?thesis by (simp add: unat_of_nat)
qed

lemma cache_INV1_fresh:
  assumes "n < 32"
  shows "cache_INV1 (2 ^ n) (InitializeCache (2 ^ n) :: 'a DexCachePair list)"
proof -
  have "INV1 (2 ^ n) (word_of_nat s) (InitializeCache (2 ^ n) ! s :: 'a DexCachePair)"
    if "s < 2 ^ n" for s
  proof -
    have u: "unat (word_of_nat s :: u32) = s" using assms that by (rule unat_slot_number)
    have "(InitializeCache (2 ^ n) ! unat (word_of_nat s :: u32) :: 'a DexCachePair)
          = \<lparr>object = None, index = InvalidIndexForSlot (word_of_nat s)\<rparr>"
      by (rule InitializeCache_slot) (simp add: u that)
    then show ?thesis by (simp add: u INV1_def slot_empty_def)
  qed
  then show ?thesis by (simp add: cache_INV1_def)
qed

lemma cache_INV1_Insert:
  assumes "cache_INV1 (2 ^ n) slots"
  shows "cache_INV1 (2 ^ n) (Insert (2 ^ n) slots k (Some v))"
proof -
  have len: "length slots = 2 ^ n" using assms by (simp add: cache_INV1_def)
  have "INV1 (2 ^ n) (word_of_nat s) (Insert (2 ^ n) slots k (Some v) ! s)" if "s < 2 ^ n" for s
  proof (cases "s = unat (SlotIndex (2 ^ n) k)")
    case True
    then have "word_of_nat s = SlotIndex (2 ^ n) k" by simp
    then show ?thesis
      using len by (simp add: True Insert_slot INV1_def slot_populated_def)
  next
    case False
    then show ?thesis
      using assms that by (simp add: Insert_other cache_INV1_def)
  qed
  then show ?thesis using len by (simp add: cache_INV1_def)
qed

lemma INV1_match_non_null:
  assumes "0 < n" and "INV1 (2 ^ n) (SlotIndex (2 ^ n) k) p" and "index p = k"
  shows "object p \<noteq> None"
  using assms index_never_sentinel [OF assms(1), of k]
  by (auto simp: INV1_def slot_empty_def slot_populated_def)

lemma cache_INV1_slot:
  assumes "cache_INV1 (2 ^ n) slots"
  shows "INV1 (2 ^ n) (SlotIndex (2 ^ n) k) (slots ! unat (SlotIndex (2 ^ n) k))"
proof -
  have "unat (SlotIndex (2 ^ n) k) \<in> {..<2 ^ n}" by (simp add: SlotIndex_bound)
  with assms have "INV1 (2 ^ n) (word_of_nat (unat (SlotIndex (2 ^ n) k)))
                     (slots ! unat (SlotIndex (2 ^ n) k))"
    unfolding cache_INV1_def by blast
  then show ?thesis by simp
qed

lemma cache_INV1_ClearIfMatching:
  assumes "cache_INV1 (2 ^ n) slots"
  shows "cache_INV1 (2 ^ n) (ClearIfMatching (2 ^ n) slots k)"
proof (cases "index (slots ! unat (SlotIndex (2 ^ n) k)) = k")
  case False
  then show ?thesis using assms by (simp add: ClearIfMatching_mismatch)
next
  case True
  have len: "length slots = 2 ^ n" using assms by (simp add: cache_INV1_def)
  have "INV1 (2 ^ n) (word_of_nat s) (ClearIfMatching (2 ^ n) slots k ! s)" if "s < 2 ^ n" for s
  proof (cases "s = unat (SlotIndex (2 ^ n) k)")
    case eq: True
    then have "word_of_nat s = SlotIndex (2 ^ n) k" by simp
    then show ?thesis
      by (simp add: eq ClearIfMatching_match [OF len True] INV1_def slot_empty_def)
  next
    case False
    then show ?thesis
      using assms that by (simp add: ClearIfMatching_other cache_INV1_def)
  qed
  then show ?thesis using len by (simp add: cache_INV1_def)
qed

lemma cache_INV1_Initialize:
  assumes "cache_INV1 C slots"
  shows "cache_INV1 C (Initialize slots)"
proof -
  have "INV1 C (word_of_nat s) (Initialize slots ! s)" if "s < C" for s
  proof (cases "s = 0")
    case True
    then show ?thesis
      using assms that by (simp add: Initialize_def cache_INV1_def INV1_def slot_empty_def)
  next
    case False
    then show ?thesis
      using assms that by (simp add: Initialize_def cache_INV1_def)
  qed
  then show ?thesis using assms by (simp add: cache_INV1_def Initialize_def)
qed

section \<open>Facts about call sites\<close>

lemma SetResolvedCallSite_bound:
  assumes "resolved_call_sites dc ! unat idx = Some w"
  shows "SetResolvedCallSite dc idx c = (Some w, dc)"
  using assms by (simp add: SetResolvedCallSite_def Let_def)

lemma SetResolvedCallSite_calls_bound:
  assumes "resolved_call_sites dc ! unat idx = Some w"
  shows "SetResolvedCallSite_calls dc idx cs = (replicate (length cs) (Some w), dc)"
  using assms
  by (induction cs) (simp_all add: SetResolvedCallSite_bound)

section \<open>Facts about the bounds check\<close>

lemma uint_ucast_count: "uint (ucast (n::u32) :: size_t) = uint n"
  by (simp add: uint_up_ucast is_up)

lemma uint_scast_jint: "uint (scast (i::jint) :: size_t) = sint i mod 2 ^ 64"
  unfolding scast_eq uint_word_of_int by simp

lemma size_t_compare:
  "(scast (i::jint) :: size_t) < ucast (n::u32) \<longleftrightarrow> 0 \<le> sint i \<and> sint i < uint n"
proof -
  have lo: "- (2 ^ 31) \<le> sint i" and hi: "sint i < 2 ^ 31"
    using sint_ge [of i] sint_lt [of i] by simp_all
  have nb: "uint n < 2 ^ 32"
    using uint_bounded [of n] by simp
  show ?thesis
  proof (cases "0 \<le> sint i")
    case True
    then have "sint i mod 2 ^ 64 = sint i" using hi by simp
    then show ?thesis
      using True by (simp add: word_less_def uint_ucast_count uint_scast_jint)
  next
    case False
    then have "(sint i + 2 ^ 64) mod 2 ^ 64 = sint i + 2 ^ 64"
      using lo by (intro mod_pos_pos_trivial) simp_all
    then have "sint i mod 2 ^ 64 = sint i + 2 ^ 64"
      by (simp only: mod_add_self2)
    then show ?thesis
      using False lo nb by (simp add: word_less_def uint_ucast_count uint_scast_jint)
  qed
qed

lemma CHECK_LT_iff_in_bounds:
  "CHECK_LT (static_cast_size_t i) (ucast n) \<longleftrightarrow> index_in_bounds i n"
  by (simp add: CHECK_LT_def static_cast_size_t_def index_in_bounds_def size_t_compare)

section \<open>C1: the slot invariant\<close>

text \<open>
  C1. In a cache of capacity \<open>C = 2 ^ n\<close> with \<open>0 < n < 32\<close>, every slot is either fully
  empty (null object, the slot's empty index) or fully populated (non-null object, a logical
  index that maps to the slot): this holds of every slot after the initialisation (zero-fill,
  then the set-up of slot 0), and it is preserved by the set-up of slot 0, by every \<open>Insert\<close>
  of a (non-null) value and by every \<open>ClearIfMatching\<close>. In particular, whenever it holds
  and the index comparison of a lookup succeeds, the stored object is non-null and is what
  the lookup returns, in either build.
\<close>

theorem slot_invariant:
  assumes "C = 2 ^ n" and "0 < n" and "n < 32"
  shows "cache_INV1 C (InitializeCache C :: 'a DexCachePair list)
    \<and> (cache_INV1 C (slots :: 'a DexCachePair list) \<longrightarrow> cache_INV1 C (Initialize slots))
    \<and> (cache_INV1 C slots \<longrightarrow> cache_INV1 C (Insert C slots k (Some v)))
    \<and> (cache_INV1 C slots \<longrightarrow> cache_INV1 C (ClearIfMatching C slots k))
    \<and> (cache_INV1 C slots \<and> index (slots ! unat (SlotIndex C k)) = k
         \<longrightarrow> object (slots ! unat (SlotIndex C k)) \<noteq> None
           \<and> Lookup d C slots k = Inr (object (slots ! unat (SlotIndex C k))))"
proof -
  have a: "cache_INV1 (2 ^ n) (InitializeCache (2 ^ n) :: 'a DexCachePair list)"
    using assms(3) by (rule cache_INV1_fresh)
  have z: "cache_INV1 (2 ^ n) slots \<longrightarrow> cache_INV1 (2 ^ n) (Initialize slots)"
    by (simp add: cache_INV1_Initialize)
  have b: "cache_INV1 (2 ^ n) slots \<longrightarrow> cache_INV1 (2 ^ n) (Insert (2 ^ n) slots k (Some v))"
    by (simp add: cache_INV1_Insert)
  have c: "cache_INV1 (2 ^ n) slots \<longrightarrow> cache_INV1 (2 ^ n) (ClearIfMatching (2 ^ n) slots k)"
    by (simp add: cache_INV1_ClearIfMatching)
  have e: "cache_INV1 (2 ^ n) slots \<and> index (slots ! unat (SlotIndex (2 ^ n) k)) = k
         \<longrightarrow> object (slots ! unat (SlotIndex (2 ^ n) k)) \<noteq> None
           \<and> Lookup d (2 ^ n) slots k = Inr (object (slots ! unat (SlotIndex (2 ^ n) k)))"
  proof (intro impI, elim conjE)
    assume inv: "cache_INV1 (2 ^ n) slots" and m: "index (slots ! unat (SlotIndex (2 ^ n) k)) = k"
    have nn: "object (slots ! unat (SlotIndex (2 ^ n) k)) \<noteq> None"
      using assms(2) cache_INV1_slot [OF inv] m by (rule INV1_match_non_null)
    then show "object (slots ! unat (SlotIndex (2 ^ n) k)) \<noteq> None
           \<and> Lookup d (2 ^ n) slots k = Inr (object (slots ! unat (SlotIndex (2 ^ n) k)))"
      using m by (simp add: Lookup_def GetObjectForIndex_def)
  qed
  show ?thesis
    unfolding assms(1) using a z b c e by blast
qed

theorem slot_invariant_witness:
  "kDexCacheStringCacheSize = 2 ^ 10 \<and> (0::nat) < 10 \<and> (10::nat) < 32
   \<and> cache_INV1 kDexCacheStringCacheSize (strings fresh_dex_cache)
   \<and> cache_INV1 kDexCacheStringCacheSize
        (Insert kDexCacheStringCacheSize (strings fresh_dex_cache) 5 (Some 65))
   \<and> Lookup True kDexCacheStringCacheSize
        (Insert kDexCacheStringCacheSize (strings fresh_dex_cache) 5 (Some 65)) 5 = Inr (Some 65)
   \<and> cache_INV1 kDexCacheStringCacheSize
        (ClearIfMatching kDexCacheStringCacheSize
           (Insert kDexCacheStringCacheSize (strings fresh_dex_cache) 5 (Some 65)) 5)"
proof -
  let ?K = kDexCacheStringCacheSize
  let ?s0 = "strings fresh_dex_cache"
  let ?s1 = "Insert ?K ?s0 5 (Some 65)"
  have c: "?K = 2 ^ 10" by (rule capacities_pow2)
  have p: "(0::nat) < 10" and q: "(10::nat) < 32" by simp_all
  have s0: "?s0 = InitializeCache ?K" by (simp add: fresh_dex_cache_def)
  have i: "?s1 ! unat (SlotIndex ?K 5) = \<lparr>object = Some 65, index = 5\<rparr>"
    unfolding c by (rule Insert_slot) (simp add: s0 c)
  have f: "cache_INV1 ?K ?s0"
    using slot_invariant [OF c p q, of ?s0 5 65 True] by (simp add: s0)
  have g: "cache_INV1 ?K ?s1"
    using slot_invariant [OF c p q, of ?s0 5 65 True] f by blast
  have h: "Lookup True ?K ?s1 5 = Inr (Some 65) \<and> cache_INV1 ?K (ClearIfMatching ?K ?s1 5)"
    using slot_invariant [OF c p q, of ?s1 5 65 True] g i by simp
  show ?thesis using c f g h by simp
qed

section \<open>C2: slot lookup\<close>

text \<open>
  C2. For every slot state, every queried logical index and either build, the slot lookup
  \<open>GetObjectForIndex\<close> returns a stored (non-null) value exactly when the stored index equals
  the queried index and the slot holds that value; whenever the indices differ the result
  is the not-found signal \<open>Inr None\<close>, a normal return and not an abort. The lookup is a
  function of the pair and the index alone and returns no new pair: it has no effect on the
  slot.
\<close>

theorem GetObjectForIndex_hit_iff:
  "(GetObjectForIndex dchecks p idx = Inr (Some v) \<longleftrightarrow> idx = index p \<and> object p = Some v)
   \<and> (idx \<noteq> index p \<longrightarrow> GetObjectForIndex dchecks p idx = Inr None)"
  by (auto simp: GetObjectForIndex_def)

theorem GetObjectForIndex_hit_iff_witness:
  "GetObjectForIndex True \<lparr>object = Some (7::nat), index = 5\<rparr> 5 = Inr (Some 7)
   \<and> GetObjectForIndex True \<lparr>object = Some (7::nat), index = 5\<rparr> 1029 = Inr None"
  using GetObjectForIndex_hit_iff [of True "\<lparr>object = Some (7::nat), index = 5\<rparr>" 5 7]
    GetObjectForIndex_hit_iff [of True "\<lparr>object = Some (7::nat), index = 5\<rparr>" 1029 7]
  by simp

section \<open>C3: the sentinel of slot 0\<close>

text \<open>
  C3. The empty index of slot 0 is 1 and that of every other slot is 0. In a cache of
  capacity \<open>C = 2 ^ n\<close> with \<open>0 < n < 32\<close>: the freshly initialised cache holds
  \<^verbatim>\<open>{null, 1}\<close> in slot 0 and \<open>Lookup 0\<close> on it returns the not-found signal; after an
  insert at index 0, \<open>Lookup 0\<close> returns the inserted value; and every multiple \<open>m * C\<close> maps
  to slot 0, differs from the empty index 1 of that slot, is not found in the fresh cache,
  and after its insert leaves slot 0 non-empty and is found with the inserted value.
\<close>

theorem slot_zero_sentinel:
  assumes "C = 2 ^ n" and "0 < n" and "n < 32" and "length slots = C"
  shows "InvalidIndexForSlot 0 = 1
    \<and> (slot \<noteq> 0 \<longrightarrow> InvalidIndexForSlot slot = 0)
    \<and> (InitializeCache C ! 0 :: 'a DexCachePair) = \<lparr>object = None, index = 1\<rparr>
    \<and> Lookup d C (InitializeCache C :: 'a DexCachePair list) 0 = Inr None
    \<and> Lookup d C (Insert C (slots :: 'a DexCachePair list) 0 (Some v)) 0 = Inr (Some v)
    \<and> SlotIndex C (m * word_of_nat C) = 0
    \<and> m * word_of_nat C \<noteq> InvalidIndexForSlot 0
    \<and> Lookup d C (InitializeCache C :: 'a DexCachePair list) (m * word_of_nat C) = Inr None
    \<and> \<not> slot_empty 0 (Insert C slots (m * word_of_nat C) (Some v) ! 0)
    \<and> Lookup d C (Insert C slots (m * word_of_nat C) (Some v)) (m * word_of_nat C) = Inr (Some v)"
proof -
  let ?mc = "m * word_of_nat (2 ^ n) :: u32"
  have len: "length slots = 2 ^ n" using assms by simp
  have s0: "SlotIndex (2 ^ n) ?mc = 0"
    using assms(3) by (rule SlotIndex_multiple)
  have ne: "?mc \<noteq> InvalidIndexForSlot 0"
    using index_never_sentinel [OF assms(2), of ?mc] unfolding s0 .
  have i0: "(InitializeCache (2 ^ n) ! 0 :: 'a DexCachePair) = \<lparr>object = None, index = 1\<rparr>"
    by (rule InitializeCache_slot0) simp
  have f0: "Lookup d (2 ^ n) (InitializeCache (2 ^ n) :: 'a DexCachePair list) 0 = Inr None"
    using assms(2) by (rule Lookup_fresh)
  have fm: "Lookup d (2 ^ n) (InitializeCache (2 ^ n) :: 'a DexCachePair list) ?mc = Inr None"
    using assms(2) by (rule Lookup_fresh)
  have h0: "Lookup d (2 ^ n) (Insert (2 ^ n) slots 0 (Some v)) 0 = Inr (Some v)"
    using len by (rule Lookup_Insert_same)
  have hm: "Lookup d (2 ^ n) (Insert (2 ^ n) slots ?mc (Some v)) ?mc = Inr (Some v)"
    using len by (rule Lookup_Insert_same)
  have "Insert (2 ^ n) slots ?mc (Some v) ! unat (SlotIndex (2 ^ n) ?mc)
        = \<lparr>object = Some v, index = ?mc\<rparr>"
    using len by (rule Insert_slot)
  then have "Insert (2 ^ n) slots ?mc (Some v) ! 0 = \<lparr>object = Some v, index = ?mc\<rparr>"
    unfolding s0 by simp
  then have pm: "\<not> slot_empty 0 (Insert (2 ^ n) slots ?mc (Some v) ! 0)"
    unfolding slot_empty_def by simp
  have inv: "InvalidIndexForSlot 0 = 1 \<and> (slot \<noteq> 0 \<longrightarrow> InvalidIndexForSlot slot = 0)"
    by (simp add: InvalidIndexForSlot_def)
  show ?thesis
    unfolding assms(1) using s0 ne i0 f0 fm h0 hm pm inv by simp
qed

theorem slot_zero_sentinel_witness:
  "kDexCacheStringCacheSize = 2 ^ 10 \<and> (0::nat) < 10 \<and> (10::nat) < 32
   \<and> length (strings fresh_dex_cache) = kDexCacheStringCacheSize
   \<and> Lookup True kDexCacheStringCacheSize (strings fresh_dex_cache) 0 = Inr None
   \<and> Lookup True kDexCacheStringCacheSize
        (Insert kDexCacheStringCacheSize (strings fresh_dex_cache) 0 (Some 90)) 0 = Inr (Some 90)
   \<and> SlotIndex kDexCacheStringCacheSize 3072 = 0
   \<and> Lookup True kDexCacheStringCacheSize (strings fresh_dex_cache) 3072 = Inr None
   \<and> Lookup True kDexCacheStringCacheSize
        (Insert kDexCacheStringCacheSize (strings fresh_dex_cache) 3072 (Some 90)) 3072
       = Inr (Some 90)"
proof -
  let ?K = kDexCacheStringCacheSize
  have c: "?K = 2 ^ 10" by (rule capacities_pow2)
  have p: "(0::nat) < 10" and q: "(10::nat) < 32" by simp_all
  have s0: "strings fresh_dex_cache = InitializeCache ?K" by (simp add: fresh_dex_cache_def)
  have l: "length (strings fresh_dex_cache) = ?K" by (simp add: s0)
  have m: "(3::u32) * word_of_nat ?K = 3072" by (simp add: kDexCacheStringCacheSize_def)
  show ?thesis
    using slot_zero_sentinel [OF c p q l, of 1 True 90 3] c l
    unfolding m s0 by simp
qed

section \<open>C4: call sites are bound once\<close>

text \<open>
  C4. For a call-site index within the array whose slot is null: one \<open>SetResolvedCallSite\<close>
  with a (non-null) candidate installs it and returns it; of any number of competing calls
  with candidates, taken in the order in which their atomic steps take effect, every call
  returns the candidate of the first one and that candidate is what the slot holds at the
  end; and once a slot holds a call site, every later call, whatever its candidate, returns
  that call site and leaves the cache unchanged.
\<close>

theorem call_site_bind_once:
  assumes "unat idx < length (resolved_call_sites dc)"
    and "resolved_call_sites dc ! unat idx = None"
  shows "SetResolvedCallSite dc idx (Some c)
           = (Some c, dc\<lparr>resolved_call_sites := (resolved_call_sites dc)[unat idx := Some c]\<rparr>)
    \<and> SetResolvedCallSite_calls dc idx (Some c # cs)
         = (replicate (Suc (length cs)) (Some c),
            dc\<lparr>resolved_call_sites := (resolved_call_sites dc)[unat idx := Some c]\<rparr>)
    \<and> GetResolvedCallSite (snd (SetResolvedCallSite_calls dc idx (Some c # cs))) idx = Some c
    \<and> (\<forall>dc' w c'. resolved_call_sites dc' ! unat idx = Some w
          \<longrightarrow> SetResolvedCallSite dc' idx c' = (Some w, dc'))"
proof -
  let ?dc1 = "dc\<lparr>resolved_call_sites := (resolved_call_sites dc)[unat idx := Some c]\<rparr>"
  have one: "SetResolvedCallSite dc idx (Some c) = (Some c, ?dc1)"
    using assms(2) by (simp add: SetResolvedCallSite_def Let_def)
  have bound: "resolved_call_sites ?dc1 ! unat idx = Some c"
    using assms(1) by simp
  have rest: "SetResolvedCallSite_calls ?dc1 idx cs = (replicate (length cs) (Some c), ?dc1)"
    using bound by (rule SetResolvedCallSite_calls_bound)
  have calls: "SetResolvedCallSite_calls dc idx (Some c # cs)
                 = (replicate (Suc (length cs)) (Some c), ?dc1)"
    by (simp add: one rest)
  have final: "GetResolvedCallSite ?dc1 idx = Some c"
    using bound by (simp add: GetResolvedCallSite_def)
  have later: "\<forall>dc' w c'. resolved_call_sites dc' ! unat idx = Some w
          \<longrightarrow> SetResolvedCallSite dc' idx c' = (Some w, dc')"
    by (simp add: SetResolvedCallSite_bound)
  show ?thesis
    using one later by (simp only: calls final snd_conv)
qed

theorem call_site_bind_once_witness:
  "unat (1::u32) < length (resolved_call_sites fresh_dex_cache)
   \<and> resolved_call_sites fresh_dex_cache ! unat (1::u32) = None
   \<and> fst (SetResolvedCallSite_calls fresh_dex_cache 1 [Some 7, Some 8, Some 9])
       = [Some 7, Some 7, Some 7]
   \<and> GetResolvedCallSite
        (snd (SetResolvedCallSite_calls fresh_dex_cache 1 [Some 7, Some 8, Some 9])) 1 = Some 7"
proof -
  have a: "unat (1::u32) < length (resolved_call_sites fresh_dex_cache)"
    by (simp add: fresh_dex_cache_def)
  have b: "resolved_call_sites fresh_dex_cache ! unat (1::u32) = None"
    by (simp add: fresh_dex_cache_def)
  have r: "replicate (Suc (length [Some (8::nat), Some 9])) (Some (7::nat)) = [Some 7, Some 7, Some 7]"
    by (simp add: numeral_2_eq_2)
  have t: "SetResolvedCallSite_calls fresh_dex_cache 1 [Some 7, Some 8, Some 9]
             = ([Some 7, Some 7, Some 7],
                fresh_dex_cache\<lparr>resolved_call_sites :=
                  (resolved_call_sites fresh_dex_cache)[unat (1::u32) := Some 7]\<rparr>)
           \<and> GetResolvedCallSite
                (snd (SetResolvedCallSite_calls fresh_dex_cache 1 [Some 7, Some 8, Some 9])) 1
              = Some 7"
    using call_site_bind_once [OF a b, of 7 "[Some 8, Some 9]"] unfolding r by blast
  from t have f: "fst (SetResolvedCallSite_calls fresh_dex_cache 1 [Some 7, Some 8, Some 9])
                   = [Some 7, Some 7, Some 7]"
    by (simp only: fst_conv)
  show ?thesis
    using a b t f by blast
qed

section \<open>C5: direct-mapped aliasing\<close>

text \<open>
  C5. In a cache of capacity \<open>C = 2 ^ n\<close> (with \<open>n < 32\<close>, the indices being 32-bit) whose
  array has \<open>C\<close> slots, the physical slot \<open>logical_index & (C-1)\<close> is the logical index
  modulo \<open>C\<close>, so \<open>k\<close> and \<open>k + C\<close> share a slot; \<open>Insert\<close> overwrites the pair of that slot
  with the new value and index whatever it held; and after inserting at \<open>k\<close> and then at
  \<open>k + C\<close>, \<open>Lookup k\<close> returns the not-found signal and \<open>Lookup (k + C)\<close> returns the second
  value.
\<close>

theorem direct_map_aliasing:
  assumes "C = 2 ^ n" and "n < 32" and "length slots = C"
  shows "unat (SlotIndex C k) = unat k mod C
    \<and> SlotIndex C (k + word_of_nat C) = SlotIndex C k
    \<and> Insert C slots j w ! unat (SlotIndex C j) = \<lparr>object = w, index = j\<rparr>
    \<and> Lookup d C (Insert C (Insert C slots k (Some v1)) (k + word_of_nat C) (Some v2)) k = Inr None
    \<and> Lookup d C (Insert C (Insert C slots k (Some v1)) (k + word_of_nat C) (Some v2))
         (k + word_of_nat C) = Inr (Some v2)"
proof -
  let ?k' = "k + word_of_nat (2 ^ n) :: u32"
  let ?s1 = "Insert (2 ^ n) slots k (Some v1)"
  have len: "length ?s1 = 2 ^ n" using assms by simp
  have same_slot: "SlotIndex (2 ^ n) ?k' = SlotIndex (2 ^ n) k"
    using assms(2) by (rule SlotIndex_alias)
  have neq: "?k' \<noteq> k" using assms(2) by (rule capacity_shift_neq)
  have slot: "Insert (2 ^ n) ?s1 ?k' (Some v2) ! unat (SlotIndex (2 ^ n) k)
              = \<lparr>object = Some v2, index = ?k'\<rparr>"
    using Insert_slot [OF len, of ?k' "Some v2"] by (simp only: same_slot)
  have miss: "Lookup d (2 ^ n) (Insert (2 ^ n) ?s1 ?k' (Some v2)) k = Inr None"
    unfolding Lookup_def slot using neq by (simp add: GetObjectForIndex_def)
  have hit: "Lookup d (2 ^ n) (Insert (2 ^ n) ?s1 ?k' (Some v2)) ?k' = Inr (Some v2)"
    using len by (rule Lookup_Insert_same)
  have ow: "Insert (2 ^ n) slots j w ! unat (SlotIndex (2 ^ n) j) = \<lparr>object = w, index = j\<rparr>"
    using assms by (intro Insert_slot) simp
  show ?thesis
    unfolding assms(1) using same_slot miss hit ow SlotIndex_mod [of n k] by simp
qed

theorem direct_map_aliasing_witness:
  "kDexCacheStringCacheSize = 2 ^ 10 \<and> (10::nat) < 32
   \<and> length (strings fresh_dex_cache) = kDexCacheStringCacheSize
   \<and> unat (SlotIndex kDexCacheStringCacheSize 1029) = 5
   \<and> Lookup True kDexCacheStringCacheSize
        (Insert kDexCacheStringCacheSize
           (Insert kDexCacheStringCacheSize (strings fresh_dex_cache) 5 (Some 65))
           1029 (Some 66)) 5 = Inr None
   \<and> Lookup True kDexCacheStringCacheSize
        (Insert kDexCacheStringCacheSize
           (Insert kDexCacheStringCacheSize (strings fresh_dex_cache) 5 (Some 65))
           1029 (Some 66)) 1029 = Inr (Some 66)"
proof -
  have c: "kDexCacheStringCacheSize = 2 ^ 10" by (rule capacities_pow2)
  have n: "(10::nat) < 32" by simp
  have l: "length (strings fresh_dex_cache) = kDexCacheStringCacheSize"
    by (simp add: fresh_dex_cache_def)
  have k: "(5::u32) + word_of_nat kDexCacheStringCacheSize = 1029"
    by (simp add: kDexCacheStringCacheSize_def)
  have s: "unat (SlotIndex kDexCacheStringCacheSize 1029) = 5"
    by (simp add: kDexCacheStringCacheSize_def SlotIndex_def)
  show ?thesis
    using direct_map_aliasing [OF c n l, of 5 0 None True 65 66] c l s
    unfolding k by simp
qed

section \<open>C6: clearing by index\<close>

text \<open>
  C6. In a cache of capacity \<open>C = 2 ^ n\<close> (\<open>0 < n\<close>) with \<open>C\<close> slots, \<open>ClearIfMatching\<close>
  compares the stored index only. After \<open>Insert k v1\<close> and \<open>ClearIfMatching k\<close> the slot of
  \<open>k\<close> holds its empty pair and \<open>Lookup k\<close> returns the not-found signal; after
  \<open>Insert k v1\<close>, \<open>Insert k v2\<close> and \<open>ClearIfMatching k\<close> it is the same: the clear still
  matches and discards \<open>v2\<close>. This holds in either build. A \<open>ClearIfMatching k\<close> on a cache
  whose slot for \<open>k\<close> stores an index other than \<open>k\<close> leaves the cache unchanged.
\<close>

theorem clear_by_index_only:
  assumes "C = 2 ^ n" and "0 < n" and "length slots = C"
  shows "ClearIfMatching C (Insert C slots k (Some v1)) k ! unat (SlotIndex C k)
           = \<lparr>object = None, index = InvalidIndexForSlot (SlotIndex C k)\<rparr>
    \<and> Lookup d C (ClearIfMatching C (Insert C slots k (Some v1)) k) k = Inr None
    \<and> ClearIfMatching C (Insert C (Insert C slots k (Some v1)) k (Some v2)) k
         ! unat (SlotIndex C k)
           = \<lparr>object = None, index = InvalidIndexForSlot (SlotIndex C k)\<rparr>
    \<and> Lookup d C
         (ClearIfMatching C (Insert C (Insert C slots k (Some v1)) k (Some v2)) k) k = Inr None
    \<and> (index (slots ! unat (SlotIndex C k)) \<noteq> k \<longrightarrow> ClearIfMatching C slots k = slots)"
proof -
  let ?s1 = "Insert (2 ^ n) slots k (Some v1)"
  let ?s2 = "Insert (2 ^ n) ?s1 k (Some v2)"
  have len: "length slots = 2 ^ n" using assms by simp
  have l1: "length ?s1 = 2 ^ n" and l2: "length ?s2 = 2 ^ n" using len by simp_all
  have i1: "index (?s1 ! unat (SlotIndex (2 ^ n) k)) = k"
    using len by (simp add: Insert_slot)
  have i2: "index (?s2 ! unat (SlotIndex (2 ^ n) k)) = k"
    using l1 by (simp add: Insert_slot)
  have a: "ClearIfMatching (2 ^ n) ?s1 k ! unat (SlotIndex (2 ^ n) k)
           = \<lparr>object = None, index = InvalidIndexForSlot (SlotIndex (2 ^ n) k)\<rparr>"
    using l1 i1 by (rule ClearIfMatching_match)
  have b: "Lookup d (2 ^ n) (ClearIfMatching (2 ^ n) ?s1 k) k = Inr None"
    using assms(2) l1 i1 by (rule Lookup_after_Clear)
  have a2: "ClearIfMatching (2 ^ n) ?s2 k ! unat (SlotIndex (2 ^ n) k)
           = \<lparr>object = None, index = InvalidIndexForSlot (SlotIndex (2 ^ n) k)\<rparr>"
    using l2 i2 by (rule ClearIfMatching_match)
  have c: "Lookup d (2 ^ n) (ClearIfMatching (2 ^ n) ?s2 k) k = Inr None"
    using assms(2) l2 i2 by (rule Lookup_after_Clear)
  have f: "index (slots ! unat (SlotIndex (2 ^ n) k)) \<noteq> k
           \<longrightarrow> ClearIfMatching (2 ^ n) slots k = slots"
    by (simp add: ClearIfMatching_mismatch)
  show ?thesis
    unfolding assms(1) using a b a2 c f by blast
qed

theorem clear_by_index_only_witness:
  "kDexCacheStringCacheSize = 2 ^ 10 \<and> (0::nat) < 10
   \<and> length (strings fresh_dex_cache) = kDexCacheStringCacheSize
   \<and> Lookup True kDexCacheStringCacheSize
        (ClearIfMatching kDexCacheStringCacheSize
          (Insert kDexCacheStringCacheSize (strings fresh_dex_cache) 5 (Some 65)) 5) 5
       = Inr None
   \<and> Lookup True kDexCacheStringCacheSize
        (ClearIfMatching kDexCacheStringCacheSize
          (Insert kDexCacheStringCacheSize
             (Insert kDexCacheStringCacheSize (strings fresh_dex_cache) 5 (Some 65)) 5 (Some 66)) 5) 5
       = Inr None
   \<and> ClearIfMatching kDexCacheStringCacheSize (strings fresh_dex_cache) 5
       = strings fresh_dex_cache"
proof -
  let ?K = kDexCacheStringCacheSize
  have c: "?K = 2 ^ 10" by (rule capacities_pow2)
  have p: "(0::nat) < 10" by simp
  have s0: "strings fresh_dex_cache = InitializeCache ?K" by (simp add: fresh_dex_cache_def)
  have l: "length (strings fresh_dex_cache) = ?K" by (simp add: s0)
  have s5: "unat (SlotIndex ?K 5) = 5" by (simp add: kDexCacheStringCacheSize_def SlotIndex_def)
  have "strings fresh_dex_cache ! 5 = \<lparr>object = None, index = 0\<rparr>"
    unfolding s0 by (rule InitializeCache_other) (simp_all add: kDexCacheStringCacheSize_def)
  then have i: "index (strings fresh_dex_cache ! unat (SlotIndex ?K 5)) \<noteq> 5"
    by (simp add: s5)
  show ?thesis
    using clear_by_index_only [OF c p l, of 5 65 True 66] c p l i by blast
qed

section \<open>C7: the bounds check of the native bindings\<close>

text \<open>
  C7. Each of the four native bindings (\<open>getResolvedType\<close>, \<open>getResolvedString\<close>,
  \<open>setResolvedType\<close>, \<open>setResolvedString\<close>) ends in the fatal \<open>CHECK\<close> failure exactly when the
  supplied index is outside the bounds of the count that the dex file declares
  (\<open>NumTypeIds\<close>, \<open>NumStringIds\<close>): an out-of-bounds index (negative ones included) aborts,
  whatever the cache holds and with no state returned, and for an in-bounds index the
  abort of the check is never the outcome.
\<close>

theorem native_bindings_check_bounds:
  "(DexCache_getResolvedType dchecks dc i = Inl CheckFailed
      \<longleftrightarrow> \<not> index_in_bounds i (NumTypeIds (dex_file dc)))
   \<and> (DexCache_getResolvedString dchecks dc i = Inl CheckFailed
      \<longleftrightarrow> \<not> index_in_bounds i (NumStringIds (dex_file dc)))
   \<and> (DexCache_setResolvedType dc ct i ty = Inl CheckFailed
      \<longleftrightarrow> \<not> index_in_bounds i (NumTypeIds (dex_file dc)))
   \<and> (DexCache_setResolvedString dc i s = Inl CheckFailed
      \<longleftrightarrow> \<not> index_in_bounds i (NumStringIds (dex_file dc)))"
proof -
  have a: "DexCache_getResolvedType dchecks dc i = Inl CheckFailed
      \<longleftrightarrow> \<not> index_in_bounds i (NumTypeIds (dex_file dc))"
    by (simp add: DexCache_getResolvedType_def GetResolvedType_def Lookup_not_CheckFailed
        CHECK_LT_iff_in_bounds)
  have b: "DexCache_getResolvedString dchecks dc i = Inl CheckFailed
      \<longleftrightarrow> \<not> index_in_bounds i (NumStringIds (dex_file dc))"
    by (simp add: DexCache_getResolvedString_def GetResolvedString_def Lookup_not_CheckFailed
        CHECK_LT_iff_in_bounds)
  have c: "DexCache_setResolvedType dc ct i ty = Inl CheckFailed
      \<longleftrightarrow> \<not> index_in_bounds i (NumTypeIds (dex_file dc))"
    by (simp add: DexCache_setResolvedType_def CHECK_LT_iff_in_bounds
        split: option.splits prod.splits)
  have d: "DexCache_setResolvedString dc i s = Inl CheckFailed
      \<longleftrightarrow> \<not> index_in_bounds i (NumStringIds (dex_file dc))"
    by (simp add: DexCache_setResolvedString_def CHECK_LT_iff_in_bounds split: option.splits)
  from a b c d show ?thesis by blast
qed

theorem native_bindings_check_bounds_witness:
  "DexCache_getResolvedType True fresh_dex_cache 10 = Inl CheckFailed
   \<and> DexCache_getResolvedString True fresh_dex_cache (- 1) = Inl CheckFailed
   \<and> DexCache_setResolvedType fresh_dex_cache (Some []) 10 (Some class_Foo) = Inl CheckFailed
   \<and> DexCache_setResolvedString fresh_dex_cache (- 1) (Some 65) = Inl CheckFailed
   \<and> DexCache_getResolvedType True fresh_dex_cache 9 \<noteq> Inl CheckFailed
   \<and> DexCache_setResolvedString fresh_dex_cache 1999 (Some 65) \<noteq> Inl CheckFailed"
  using native_bindings_check_bounds [of True fresh_dex_cache 10 "Some []" "Some class_Foo" "Some 65"]
    native_bindings_check_bounds [of True fresh_dex_cache "- 1" "Some []" "Some class_Foo" "Some 65"]
    native_bindings_check_bounds [of True fresh_dex_cache 9 "Some []" "Some class_Foo" "Some 65"]
    native_bindings_check_bounds [of True fresh_dex_cache 1999 "Some []" "Some class_Foo" "Some 65"]
  by (simp add: fresh_dex_cache_def small_dex_file_def index_in_bounds_def)

section \<open>C8: setResolvedType installs canonical classes only\<close>

text \<open>
  C8. When \<open>setResolvedType\<close> returns normally, the dex cache is the one with the type
  installed at the index if the type is not null, its descriptor equals the descriptor that
  the dex file declares for the index, there is a class table and \<open>TryInsert\<close> on it returns
  that very type; in every other case the dex cache is unchanged. So whenever the cache
  changes, the descriptor of the installed type is the one expected for the index.
\<close>

theorem setResolvedType_installs_only_canonical:
  assumes "DexCache_setResolvedType dc ct i ty = Inr (dc', ct')"
  shows "(if \<exists>t table. ty = Some t \<and> ct = Some table
             \<and> descriptor t = StringByTypeIdx (dex_file dc) (TypeIndex i)
             \<and> fst (TryInsert table t) = t
          then dc' = SetResolvedType dc (TypeIndex i) ty
          else dc' = dc)
    \<and> (dc' \<noteq> dc \<longrightarrow>
          (\<exists>t. ty = Some t \<and> descriptor t = StringByTypeIdx (dex_file dc) (TypeIndex i)))"
  using assms
  by (auto simp: DexCache_setResolvedType_def DescriptorEquals_def
      split: if_splits option.splits prod.splits)

theorem setResolvedType_installs_only_canonical_witness:
  "DexCache_setResolvedType fresh_dex_cache (Some [class_Foo_duplicate]) 3 (Some class_Foo)
     = Inr (fresh_dex_cache, Some [class_Foo_duplicate])
   \<and> DexCache_setResolvedType fresh_dex_cache (Some []) 3 (Some class_Foo)
     = Inr (SetResolvedType fresh_dex_cache 3 (Some class_Foo), Some [class_Foo])
   \<and> descriptor class_Foo = StringByTypeIdx (dex_file fresh_dex_cache) (TypeIndex 3)
   \<and> fst (TryInsert [] class_Foo) = class_Foo
   \<and> fst (TryInsert [class_Foo_duplicate] class_Foo) \<noteq> class_Foo"
proof -
  have b: "index_in_bounds 3 (NumTypeIds (dex_file fresh_dex_cache))"
    by (simp add: fresh_dex_cache_def small_dex_file_def index_in_bounds_def)
  have d: "descriptor class_Foo = StringByTypeIdx (dex_file fresh_dex_cache) (TypeIndex 3)"
    by (simp add: fresh_dex_cache_def small_dex_file_def class_Foo_def TypeIndex_def)
  have t0: "TryInsert [] class_Foo = (class_Foo, [class_Foo])"
    by (simp add: TryInsert_def)
  have t1: "TryInsert [class_Foo_duplicate] class_Foo = (class_Foo_duplicate, [class_Foo_duplicate])"
    by (simp add: TryInsert_def class_Foo_def class_Foo_duplicate_def)
  have ne: "class_Foo_duplicate \<noteq> class_Foo"
    by (simp add: class_Foo_def class_Foo_duplicate_def)
  have x: "DexCache_setResolvedType fresh_dex_cache (Some [class_Foo_duplicate]) 3 (Some class_Foo)
     = Inr (fresh_dex_cache, Some [class_Foo_duplicate])"
    using b d ne
    by (simp add: DexCache_setResolvedType_def CHECK_LT_iff_in_bounds DescriptorEquals_def t1)
  have y: "DexCache_setResolvedType fresh_dex_cache (Some []) 3 (Some class_Foo)
     = Inr (SetResolvedType fresh_dex_cache 3 (Some class_Foo), Some [class_Foo])"
    using b d
    by (simp add: DexCache_setResolvedType_def CHECK_LT_iff_in_bounds DescriptorEquals_def t0
        TypeIndex_def)
  show ?thesis
    using setResolvedType_installs_only_canonical [OF x] setResolvedType_installs_only_canonical [OF y]
      x y d t0 t1 ne by simp
qed

section \<open>C9: an empty slot never matches\<close>

text \<open>
  C9. In a cache of capacity \<open>C = 2 ^ n\<close> with \<open>0 < n\<close>: logical index 0 maps to slot 0, so
  an index that maps to a non-zero slot is not 0; no logical index equals the empty index
  of the slot it maps to (0 for a non-zero slot, 1 for slot 0); hence \<open>GetObjectForIndex\<close> on
  an empty pair of the slot that the queried index maps to returns at the index mismatch,
  with the not-found signal, and never reaches the read of the null object.
\<close>

theorem empty_slot_never_matches:
  assumes "C = 2 ^ n" and "0 < n"
  shows "SlotIndex C 0 = 0
    \<and> (SlotIndex C idx \<noteq> 0 \<longrightarrow> idx \<noteq> 0)
    \<and> idx \<noteq> InvalidIndexForSlot (SlotIndex C idx)
    \<and> (slot_empty (SlotIndex C idx) p \<longrightarrow> GetObjectForIndex d p idx = Inr None)"
proof -
  have a: "SlotIndex C 0 = 0" by (rule SlotIndex_zero)
  have b: "SlotIndex C idx \<noteq> 0 \<longrightarrow> idx \<noteq> 0" using a by auto
  have c: "idx \<noteq> InvalidIndexForSlot (SlotIndex C idx)"
    unfolding assms(1) using assms(2) by (rule index_never_sentinel)
  have e: "slot_empty (SlotIndex C idx) p \<longrightarrow> GetObjectForIndex d p idx = Inr None"
    using c by (auto simp: slot_empty_def GetObjectForIndex_def)
  from a b c e show ?thesis by blast
qed

theorem empty_slot_never_matches_witness:
  "kDexCacheTypeCacheSize = 2 ^ 10 \<and> (0::nat) < 10
   \<and> TypeSlotIndex 0 = 0 \<and> TypeSlotIndex 1029 = 5
   \<and> (1029::u32) \<noteq> InvalidIndexForSlot (TypeSlotIndex 1029)
   \<and> GetObjectForIndex True \<lparr>object = (None :: mirror_Class option), index = 0\<rparr> 1029 = Inr None
   \<and> GetObjectForIndex True \<lparr>object = (None :: mirror_Class option), index = 1\<rparr> 0 = Inr None"
proof -
  let ?K = kDexCacheTypeCacheSize
  have c: "?K = 2 ^ 10" by (rule capacities_pow2)
  have p: "(0::nat) < 10" by simp
  have s5: "SlotIndex ?K 1029 = 5" by (simp add: kDexCacheTypeCacheSize_def SlotIndex_def)
  have s0: "SlotIndex ?K 0 = 0" by (simp add: SlotIndex_def)
  have e5: "slot_empty (SlotIndex ?K 1029) \<lparr>object = (None :: mirror_Class option), index = 0\<rparr>"
    by (simp add: s5 slot_empty_def InvalidIndexForSlot_def)
  have e0: "slot_empty (SlotIndex ?K 0) \<lparr>object = (None :: mirror_Class option), index = 1\<rparr>"
    by (simp add: s0 slot_empty_def InvalidIndexForSlot_def)
  show ?thesis
    using empty_slot_never_matches [OF c p, of 1029 "\<lparr>object = None, index = 0\<rparr>" True]
      empty_slot_never_matches [OF c p, of 0 "\<lparr>object = None, index = 1\<rparr>" True]
      c e5 e0 s5 s0
    by (auto simp: TypeSlotIndex_def)
qed

section \<open>C10: null values are discarded\<close>

text \<open>
  C10. For an in-bounds index, \<open>setResolvedString\<close> with a null string and \<open>setResolvedType\<close>
  with a null type return normally and leave the dex cache (and the class table) exactly as
  they were: the null value is neither installed nor used to clear the slot.
\<close>

theorem null_value_is_discarded:
  assumes "index_in_bounds i (NumStringIds (dex_file dc))"
    and "index_in_bounds j (NumTypeIds (dex_file dc))"
  shows "DexCache_setResolvedString dc i None = Inr dc
     \<and> DexCache_setResolvedType dc ct j None = Inr (dc, ct)"
  using assms
  by (simp add: DexCache_setResolvedString_def DexCache_setResolvedType_def
      CHECK_LT_iff_in_bounds)

theorem null_value_is_discarded_witness:
  "index_in_bounds 1999 (NumStringIds (dex_file fresh_dex_cache))
   \<and> index_in_bounds 3 (NumTypeIds (dex_file fresh_dex_cache))
   \<and> DexCache_setResolvedString fresh_dex_cache 1999 None = Inr fresh_dex_cache
   \<and> DexCache_setResolvedType fresh_dex_cache (Some [class_Foo]) 3 None
       = Inr (fresh_dex_cache, Some [class_Foo])"
proof -
  have a: "index_in_bounds 1999 (NumStringIds (dex_file fresh_dex_cache))"
    by (simp add: fresh_dex_cache_def small_dex_file_def index_in_bounds_def)
  have b: "index_in_bounds 3 (NumTypeIds (dex_file fresh_dex_cache))"
    by (simp add: fresh_dex_cache_def small_dex_file_def index_in_bounds_def)
  show ?thesis
    using a b null_value_is_discarded [OF a b, of "Some [class_Foo]"] by simp
qed

end
